theory Spec2Isabelle
  imports Main "HOL-Library.Sublist"
begin

section \<open>The project generator \<^verbatim>\<open>src/index.js\<close>\<close>

text \<open>
  The script asks seven questions, creates the project directory, runs \<^verbatim>\<open>npm init -y\<close>
  there and, in the callback of that command, rewrites \<^verbatim>\<open>package.json\<close>, starts the two
  dependency installations and writes the directory tree and the boilerplate files.
  The model keeps the order of the synchronous \<^verbatim>\<open>fs\<close> calls of the script as a list of
  operations, and the arguments of the two \<^verbatim>\<open>installDependencies\<close> calls beside it.
  Console output is left out. The outcome of \<^verbatim>\<open>npm init -y\<close> and the working directory
  are inputs of the model; an \<^verbatim>\<open>fs\<close> call that throws is not modelled.
\<close>

subsection \<open>Answers, paths and file operations\<close>

datatype language = JavaScript | TypeScript

record answers =
  projectName :: string
  language :: language
  enableCORS :: bool
  basicErrorHandler :: bool
  envFile :: bool
  morganLogging :: bool
  docker :: bool

text \<open>
  A path is the list of the segments handed to \<^verbatim>\<open>path.join\<close>, below the segments of
  \<^verbatim>\<open>process.cwd()\<close>; the project name is one segment, as typed.
\<close>

type_synonym path = "string list"

definition path_join :: "path \<Rightarrow> string list \<Rightarrow> path" where
  "path_join p segs = p @ segs"

definition dirname :: "path \<Rightarrow> path" where
  "dirname p = butlast p"

definition basename :: "path \<Rightarrow> string" where
  "basename p = (if p = [] then [] else last p)"

text \<open>
  The object read from \<^verbatim>\<open>package.json\<close>: its \<^verbatim>\<open>scripts\<close> member as the list of its
  properties in insertion order, and the other members, which the script copies unchanged.
\<close>

record packageJson =
  scripts :: "(string \<times> string) list"
  otherMembers :: "(string \<times> string) list"

text \<open>Setting a property of an object: an existing key keeps its place, a new key goes last.\<close>

fun set_prop :: "string \<Rightarrow> 'v \<Rightarrow> (string \<times> 'v) list \<Rightarrow> (string \<times> 'v) list" where
  "set_prop k v [] = [(k, v)]"
| "set_prop k v (p # ps) = (if fst p = k then (k, v) # ps else p # set_prop k v ps)"

text \<open>
  What \<^verbatim>\<open>fs.writeFileSync\<close> receives: a template text, or the \<^verbatim>\<open>JSON.stringify\<close> of the
  manifest object (kept as the object).
\<close>

datatype content = Text string | Json packageJson

text \<open>
  \<open>MkDir p\<close> is the statement \<^verbatim>\<open>if (!fs.existsSync(p)) { fs.mkdirSync(p); }\<close>;
  \<open>WriteFile p c\<close> is \<^verbatim>\<open>fs.writeFileSync(p, c)\<close>.
\<close>

datatype fsop = MkDir path | WriteFile path content

text \<open>
  The surroundings of a run: the working directory, and the outcome of \<^verbatim>\<open>npm init -y\<close>,
  which is its error output when it failed (\<open>Inl\<close>) and otherwise the manifest it wrote,
  as the script parses it (\<open>Inr\<close>).
\<close>

record env =
  cwd :: path
  npmInit :: "string + packageJson"

record run =
  fsOps :: "fsop list"
  installs :: "(string list \<times> path \<times> bool) list"

subsection \<open>Version lookup and installation\<close>

text \<open>
  \<^verbatim>\<open>execPromise\<close> is the shell: a command either rejects (\<open>Inl\<close>) or resolves with its
  standard output (\<open>Inr\<close>). A promise is a value of a sum type, \<open>Inl\<close> the rejection.
\<close>

type_synonym shell = "string \<Rightarrow> string + string"

text \<open>\<^verbatim>\<open>trim\<close> on the ASCII white space, which is what the output of \<^verbatim>\<open>npm show\<close> has.\<close>

definition isWhiteSpace :: "char \<Rightarrow> bool" where
  "isWhiteSpace c = (c \<in> set [CHR 0x09, CHR 0x0A, CHR 0x0B, CHR 0x0C, CHR 0x0D, CHR 0x20])"

definition trim :: "string \<Rightarrow> string" where
  "trim s = rev (dropWhile isWhiteSpace (rev (dropWhile isWhiteSpace s)))"

definition getLatestPackageVersion :: "shell \<Rightarrow> string \<Rightarrow> string + string option" where
  "getLatestPackageVersion execPromise packageName =
     (case execPromise (''npm show '' @ packageName @ '' version'') of
        Inr stdout \<Rightarrow> Inr (Some (trim stdout))
      | Inl error \<Rightarrow> Inr None)"

text \<open>A value inside a template literal: \<^verbatim>\<open>null\<close> prints as the text \<^verbatim>\<open>null\<close>.\<close>

definition template_value :: "string option \<Rightarrow> string" where
  "template_value v = (case v of None \<Rightarrow> ''null'' | Some s \<Rightarrow> s)"

fun promise_all :: "('e + 'a) list \<Rightarrow> 'e + 'a list" where
  "promise_all [] = Inr []"
| "promise_all (p # ps) =
     (case p of
        Inl e \<Rightarrow> Inl e
      | Inr v \<Rightarrow> (case promise_all ps of Inl e \<Rightarrow> Inl e | Inr vs \<Rightarrow> Inr (v # vs)))"

fun join :: "string \<Rightarrow> string list \<Rightarrow> string" where
  "join sep [] = []"
| "join sep [x] = x"
| "join sep (x # y # ys) = x @ sep @ join sep (y # ys)"

definition depVersions :: "shell \<Rightarrow> string list \<Rightarrow> string + string list" where
  "depVersions execPromise dependencies =
     promise_all (map (\<lambda>dep.
        case getLatestPackageVersion execPromise dep of
          Inl e \<Rightarrow> Inl e
        | Inr version \<Rightarrow> Inr (dep @ ''@'' @ template_value version)) dependencies)"

text \<open>The result is the command handed to \<^verbatim>\<open>exec\<close>, with its working directory.\<close>

definition installDependencies :: "shell \<Rightarrow> string list \<Rightarrow> path \<Rightarrow> bool \<Rightarrow> string + string \<times> path" where
  "installDependencies execPromise dependencies projectDir isDev =
     (case depVersions execPromise dependencies of
        Inl e \<Rightarrow> Inl e
      | Inr dvs \<Rightarrow>
          Inr (''npm install '' @ (if isDev then ''-D'' else []) @ '' '' @ join '' '' dvs,
               projectDir))"

subsection \<open>The manifest scripts and the dependency lists\<close>

definition packageJsonScripts :: "answers \<Rightarrow> (string \<times> string) list \<Rightarrow> (string \<times> string) list" where
  "packageJsonScripts a old =
     (if language a = TypeScript
      then set_prop ''watch'' ''tsc -w'' (set_prop ''dev'' ''nodemon src/app.ts'' old)
      else set_prop ''watch'' [] (set_prop ''dev'' ''nodemon src/app.js'' old))"

definition dependencies :: "answers \<Rightarrow> string list" where
  "dependencies a =
     [''express''] @
     (if enableCORS a then [''cors''] else []) @
     (if morganLogging a then [''morgan''] else []) @
     (if envFile a then [''dotenv''] else [])"

definition devDependencies :: "answers \<Rightarrow> string list" where
  "devDependencies a =
     [''nodemon''] @
     (if language a = TypeScript
      then [''typescript'', ''@types/express'', ''@types/node'', ''ts-node''] @
           (if enableCORS a then [''@types/cors''] else []) @
           (if morganLogging a then [''@types/morgan''] else [])
      else [])"

subsection \<open>The templates\<close>

definition errorHandlerContent :: string where
  \<open>errorHandlerContent =
     ''export class ErrorHandler extends Error {\<newline>'' @
     ''  public statusCode: number;\<newline>'' @
     ''\<newline>'' @
     ''  constructor(message: string, statusCode: number = 500) {\<newline>'' @
     ''    super(message);\<newline>'' @
     ''    this.statusCode = statusCode;\<newline>'' @
     ''    Error.captureStackTrace(this, this.constructor);\<newline>'' @
     ''  }\<newline>'' @
     ''}''\<close>

definition importLines :: "bool \<Rightarrow> bool \<Rightarrow> bool \<Rightarrow> language \<Rightarrow> string" where
  \<open>importLines enableCORS' morganLogging' envFile' language' =
     (if language' = TypeScript
      then ''import express from 'express';\<newline>'' @
           (if envFile' then ''import dotenv from 'dotenv';\<newline>'' else []) @
           (if enableCORS' then ''import cors from 'cors';\<newline>'' else []) @
           (if morganLogging' then ''import morgan from 'morgan';\<newline>'' else [])
      else ''const express = require('express');\<newline>'' @
           (if envFile' then ''require('dotenv').config();\<newline>'' else []) @
           (if enableCORS' then ''const cors = require('cors');\<newline>'' else []) @
           (if morganLogging' then ''const morgan = require('morgan');\<newline>'' else []))\<close>

definition appSetup :: "bool \<Rightarrow> bool \<Rightarrow> bool \<Rightarrow> language \<Rightarrow> string" where
  \<open>appSetup enableCORS' morganLogging' envFile' language' =
     (if language' = TypeScript \<and> envFile'
      then ''dotenv.config(); // Load environment variables from .env file\<newline>''
      else []) @
     ''\<newline>'' @
     ''    const app = express();\<newline>'' @
     ''    app.use(express.json());\<newline>'' @
     ''    '' @
     (if enableCORS' then ''app.use(cors()); // Enable CORS\<newline>'' else []) @
     (if morganLogging' then ''app.use(morgan('dev')); // Use Morgan for logging\<newline>'' else [])\<close>

definition remainingSetup :: string where
  \<open>remainingSetup =
     ''\<newline>'' @
     ''    const envMode = process.env.NODE_ENV || 'development';  // Default to 'development'\<newline>'' @
     ''    \<newline>'' @
     ''    // Define the port from the environment variable or default to 3000\<newline>'' @
     ''    const port = process.env.PORT || 3000;\<newline>'' @
     ''    \<newline>'' @
     ''    // Start the server on the specified port\<newline>'' @
     ''    app.listen(port, () => {\<newline>'' @
     ''      console.log(`Server running in ${envMode} mode on port ${port}`);\<newline>'' @
     ''    });\<newline>'' @
     ''    \<newline>'' @
     ''    app.get('/', (req, res) => {\<newline>'' @
     ''      res.send('Hello World');\<newline>'' @
     ''    });\<newline>'' @
     ''    ''\<close>

definition appFileContent :: "bool \<Rightarrow> bool \<Rightarrow> bool \<Rightarrow> language \<Rightarrow> string" where
  \<open>appFileContent enableCORS' morganLogging' envFile' language' =
     (if language' = TypeScript
      then importLines enableCORS' morganLogging' envFile' language' @
           appSetup enableCORS' morganLogging' envFile' language' @
           remainingSetup @
           ''export { app, envMode }; export default app;''
      else importLines enableCORS' morganLogging' envFile' language' @
           appSetup enableCORS' morganLogging' envFile' language' @
           remainingSetup @
           ''module.exports = { app, envMode };'')\<close>

definition envContent :: string where
  \<open>envContent =
     ''PORT=3000\<newline>'' @
     ''NODE_ENV=development\<newline>''\<close>

definition tsconfigContent :: string where
  \<open>tsconfigContent =
     ''{\<newline>'' @
     ''  "compilerOptions": {\<newline>'' @
     ''    "target": "ES6",\<newline>'' @
     ''    "module": "commonjs",\<newline>'' @
     ''    "outDir": "./dist",\<newline>'' @
     ''    "rootDir": "./src",\<newline>'' @
     ''    "strict": true,\<newline>'' @
     ''    "esModuleInterop": true\<newline>'' @
     ''  },\<newline>'' @
     ''  "exclude": ["node_modules"]\<newline>'' @
     ''}''\<close>

definition errorMiddlewareContent :: string where
  \<open>errorMiddlewareContent =
     ''import { NextFunction, Request, Response } from 'express';\<newline>'' @
     ''import { ErrorHandler } from '../utils/errorHandler'; \<newline>'' @
     ''import { envMode } from '../app'; \<newline>'' @
     ''\<newline>'' @
     ''const errorMiddleware = (err: ErrorHandler, req: Request, res: Response, next: NextFunction) => {\<newline>'' @
     ''    err.message = err.message || 'Internal Server Error';\<newline>'' @
     ''    err.statusCode = err.statusCode || 500;\<newline>'' @
     ''\<newline>'' @
     ''    const response: {\<newline>'' @
     ''        success: boolean;\<newline>'' @
     ''        message: string;\<newline>'' @
     ''        error?: ErrorHandler;\<newline>'' @
     ''    } = {\<newline>'' @
     ''        success: false,\<newline>'' @
     ''        message: err.message,\<newline>'' @
     ''    };\<newline>'' @
     ''\<newline>'' @
     ''    // Add the error object to the response if in development mode\<newline>'' @
     ''    if (envMode === 'development') {\<newline>'' @
     ''        response.error = err;\<newline>'' @
     ''    }\<newline>'' @
     ''\<newline>'' @
     ''    // Send the structured error response\<newline>'' @
     ''    res.status(err.statusCode).json(response);\<newline>'' @
     ''};\<newline>'' @
     ''\<newline>'' @
     ''export default errorMiddleware;''\<close>

definition dockerfileContent :: "answers \<Rightarrow> string" where
  \<open>dockerfileContent a =
     ''\<newline>'' @
     ''FROM node:20\<newline>'' @
     ''\<newline>'' @
     ''# Create and set the working directory\<newline>'' @
     ''WORKDIR /usr/src/app\<newline>'' @
     ''\<newline>'' @
     ''# Copy package.json and package-lock.json to the working directory\<newline>'' @
     ''COPY package*.json ./\<newline>'' @
     ''\<newline>'' @
     ''# Install dependencies\<newline>'' @
     ''RUN npm install\<newline>'' @
     ''\<newline>'' @
     ''# Copy the rest of the application code to the working directory\<newline>'' @
     ''COPY . .\<newline>'' @
     ''\<newline>'' @
     ''# Set the environment variable if using dotenv\<newline>'' @
     (if envFile a then ''ENV NODE_ENV=production'' else []) @ ''\<newline>'' @
     ''\<newline>'' @
     ''# Expose the application port\<newline>'' @
     ''EXPOSE 3000\<newline>'' @
     ''\<newline>'' @
     ''# Define the command to run the application\<newline>'' @
     ''CMD ["npm", "run", "dev"]\<newline>''\<close>

subsection \<open>The script\<close>

definition folders :: "string list" where
  "folders = [''controllers'', ''middlewares'', ''models'', ''routes'', ''tests'', ''lib'']"

text \<open>The callback of \<^verbatim>\<open>npm init -y\<close>: it returns at once when the command failed.\<close>

definition callback :: "path \<Rightarrow> answers \<Rightarrow> string + packageJson \<Rightarrow> run" where
  "callback projectDir a r =
     (case r of
        Inl stderr \<Rightarrow> \<lparr>fsOps = [], installs = []\<rparr>
      | Inr packageJson \<Rightarrow>
          (let packageJsonPath = path_join projectDir [''package.json''];
               srcDir = path_join projectDir [''src''];
               utilsDir = path_join srcDir [''utils'']
           in \<lparr>fsOps =
                 [WriteFile packageJsonPath
                    (Json (packageJson\<lparr>scripts := packageJsonScripts a (scripts packageJson)\<rparr>))] @
                 [MkDir srcDir] @
                 map (\<lambda>folder. MkDir (path_join srcDir [folder])) folders @
                 [MkDir utilsDir] @
                 [WriteFile (path_join utilsDir [''errorHandler.ts'']) (Text errorHandlerContent)] @
                 [WriteFile
                    (if language a = TypeScript
                     then path_join srcDir [''app.ts'']
                     else path_join srcDir [''app.js''])
                    (Text (appFileContent (enableCORS a) (morganLogging a) (envFile a) (language a)))] @
                 (if envFile a
                  then [WriteFile (path_join projectDir [''.env'']) (Text envContent)]
                  else []) @
                 (if language a = TypeScript
                  then [WriteFile (path_join projectDir [''tsconfig.json'']) (Text tsconfigContent)]
                  else []) @
                 [WriteFile
                    (if language a = TypeScript
                     then path_join srcDir [''middlewares'', ''error.ts'']
                     else path_join srcDir [''middlewares'', ''error.js''])
                    (Text errorMiddlewareContent)] @
                 (if docker a
                  then [WriteFile (path_join projectDir [''Dockerfile'']) (Text (dockerfileContent a))]
                  else []),
               installs =
                 [(dependencies a, projectDir, False),
                  (devDependencies a, projectDir, True)]\<rparr>))"

definition main :: "env \<Rightarrow> answers \<Rightarrow> run" where
  "main e a =
     (let projectDir = path_join (cwd e) [projectName a];
          rest = callback projectDir a (npmInit e)
      in \<lparr>fsOps = MkDir projectDir # fsOps rest, installs = installs rest\<rparr>)"

subsection \<open>The second script\<close>

text \<open>
  \<^verbatim>\<open>src/unnamed/part_000\<close> is the same script with the TypeScript texts only. It asks the
  same questions, and sets the two manifest scripts without looking at the language.
\<close>

definition packageJsonScripts_part_000 :: "answers \<Rightarrow> (string \<times> string) list \<Rightarrow> (string \<times> string) list" where
  "packageJsonScripts_part_000 a old =
     set_prop ''watch'' ''tsc -w'' (set_prop ''dev'' ''nodemon src/app.ts'' old)"

subsection \<open>Observations on a run\<close>

text \<open>The writes of a file of a given name, whatever its directory.\<close>

definition isWriteOf :: "string \<Rightarrow> fsop \<Rightarrow> bool" where
  "isWriteOf name op = (case op of MkDir p \<Rightarrow> False | WriteFile p c \<Rightarrow> basename p = name)"

text \<open>The template texts written, in order, each with the name of its file.\<close>

definition textWrites :: "fsop list \<Rightarrow> (string \<times> string) list" where
  "textWrites ops =
     concat (map (\<lambda>op. case op of
                          MkDir p \<Rightarrow> []
                        | WriteFile p c \<Rightarrow> (case c of Text t \<Rightarrow> [(basename p, t)] | Json j \<Rightarrow> [])) ops)"

text \<open>The package names of each installation, with its \<^verbatim>\<open>isDev\<close> flag.\<close>

definition installedNames :: "run \<Rightarrow> (string list \<times> bool) list" where
  "installedNames r = map (\<lambda>(names, dir, isDev). (names, isDev)) (installs r)"

text \<open>The writes of files directly in a given directory.\<close>

definition isWriteIn :: "path \<Rightarrow> fsop \<Rightarrow> bool" where
  "isWriteIn dir op = (case op of MkDir p \<Rightarrow> False | WriteFile p c \<Rightarrow> dirname p = dir)"

text \<open>The path an operation acts on.\<close>

fun target :: "fsop \<Rightarrow> path" where
  "target (MkDir p) = p"
| "target (WriteFile p c) = p"

text \<open>
  A check of a sequence of operations: every operation acts on a path whose parent
  directory is among the directories made so far.
\<close>

fun parents_first :: "path list \<Rightarrow> fsop list \<Rightarrow> bool" where
  "parents_first made [] = True"
| "parents_first made (MkDir p # ops) = (dirname p \<in> set made \<and> parents_first (p # made) ops)"
| "parents_first made (WriteFile p c # ops) = (dirname p \<in> set made \<and> parents_first made ops)"

subsection \<open>Sample inputs\<close>

definition demo :: answers where
  "demo = \<lparr>projectName = ''demo'', language = JavaScript, enableCORS = True,
           basicErrorHandler = True, envFile = True, morganLogging = False, docker = False\<rparr>"

definition demoPackageJson :: packageJson where
  \<open>demoPackageJson =
     \<lparr>scripts = [(''test'', ''echo "Error: no test specified" && exit 1'')],
      otherMembers = [(''name'', ''demo''), (''version'', ''1.0.0'')]\<rparr>\<close>

definition demoEnv :: env where
  "demoEnv = \<lparr>cwd = [''home''], npmInit = Inr demoPackageJson\<rparr>"

definition otherEnv :: env where
  "otherEnv = \<lparr>cwd = [''tmp'', ''work''], npmInit = Inr \<lparr>scripts = [], otherMembers = []\<rparr>\<rparr>"

text \<open>A shell in which the lookup of \<^verbatim>\<open>cors\<close> fails and every other command prints a version.\<close>

definition flakyShell :: shell where
  "flakyShell command =
     (if command = ''npm show cors version'' then Inl ''E404''
      else Inr (''4.19.2'' @ [CHR 0x0A]))"

section \<open>Properties\<close>

subsection \<open>The operations of a run\<close>

lemma fsOps_main:
  "npmInit e = Inr pj \<Longrightarrow>
   fsOps (main e a) =
     MkDir (cwd e @ [projectName a]) #
     WriteFile (cwd e @ [projectName a, ''package.json''])
       (Json (pj\<lparr>scripts := packageJsonScripts a (scripts pj)\<rparr>)) #
     MkDir (cwd e @ [projectName a, ''src'']) #
     map (\<lambda>folder. MkDir (cwd e @ [projectName a, ''src'', folder])) folders @
     MkDir (cwd e @ [projectName a, ''src'', ''utils'']) #
     WriteFile (cwd e @ [projectName a, ''src'', ''utils'', ''errorHandler.ts'']) (Text errorHandlerContent) #
     WriteFile (cwd e @ [projectName a, ''src'', if language a = TypeScript then ''app.ts'' else ''app.js''])
       (Text (appFileContent (enableCORS a) (morganLogging a) (envFile a) (language a))) #
     (if envFile a then [WriteFile (cwd e @ [projectName a, ''.env'']) (Text envContent)] else []) @
     (if language a = TypeScript
      then [WriteFile (cwd e @ [projectName a, ''tsconfig.json'']) (Text tsconfigContent)] else []) @
     WriteFile (cwd e @ [projectName a, ''src'', ''middlewares'',
                  if language a = TypeScript then ''error.ts'' else ''error.js''])
       (Text errorMiddlewareContent) #
     (if docker a
      then [WriteFile (cwd e @ [projectName a, ''Dockerfile'']) (Text (dockerfileContent a))] else [])"
  by (simp add: main_def callback_def path_join_def Let_def)

lemma installs_main:
  "npmInit e = Inr pj \<Longrightarrow>
   installs (main e a) =
     [(dependencies a, cwd e @ [projectName a], False),
      (devDependencies a, cwd e @ [projectName a], True)]"
  by (simp add: main_def callback_def path_join_def Let_def)

subsection \<open>Determinism\<close>

text \<open>
  C1. Two runs on the same answers write the same texts to the same file names, in the same
  order (error handler, entry file, \<^verbatim>\<open>.env\<close>, \<^verbatim>\<open>tsconfig.json\<close>, error middleware,
  \<^verbatim>\<open>Dockerfile\<close>), and install the same runtime and development package names, whatever the
  working directory and the manifest that \<^verbatim>\<open>npm init -y\<close> produced in each run.
\<close>

theorem generation_deterministic:
  assumes "npmInit e1 = Inr pj1" and "npmInit e2 = Inr pj2"
  shows "textWrites (fsOps (main e1 a)) = textWrites (fsOps (main e2 a))
         \<and> installedNames (main e1 a) = installedNames (main e2 a)"
  by (simp add: fsOps_main [OF assms(1)] fsOps_main [OF assms(2)]
      installs_main [OF assms(1)] installs_main [OF assms(2)]
      textWrites_def installedNames_def basename_def folders_def)

theorem generation_deterministic_witness:
  "npmInit demoEnv = Inr demoPackageJson
   \<and> npmInit otherEnv = Inr \<lparr>scripts = [], otherMembers = []\<rparr>
   \<and> textWrites (fsOps (main demoEnv demo)) = textWrites (fsOps (main otherEnv demo))
   \<and> installedNames (main demoEnv demo) = installedNames (main otherEnv demo)"
  using generation_deterministic
    [of demoEnv demoPackageJson otherEnv "\<lparr>scripts = [], otherMembers = []\<rparr>" demo]
  by (simp add: demoEnv_def otherEnv_def)

subsection \<open>The unused toggle\<close>

text \<open>
  C2. The answer \<^verbatim>\<open>basicErrorHandler\<close> is never read: changing it alone changes neither the
  file operations nor the installations of a run. When \<^verbatim>\<open>npm init -y\<close> succeeded, the run
  writes the error-handler utility and the error middleware, each with its fixed text,
  whatever the value of the toggle.
\<close>

theorem basicErrorHandler_ignored:
  "main e (a\<lparr>basicErrorHandler := b\<rparr>) = main e a
   \<and> (\<forall>pj. npmInit e = Inr pj \<longrightarrow>
        WriteFile (path_join (cwd e) [projectName a, ''src'', ''utils'', ''errorHandler.ts''])
          (Text errorHandlerContent) \<in> set (fsOps (main e (a\<lparr>basicErrorHandler := b\<rparr>)))
      \<and> WriteFile (path_join (cwd e) [projectName a, ''src'', ''middlewares'',
                      if language a = TypeScript then ''error.ts'' else ''error.js''])
          (Text errorMiddlewareContent) \<in> set (fsOps (main e (a\<lparr>basicErrorHandler := b\<rparr>))))"
proof -
  have same: "main e (a\<lparr>basicErrorHandler := b\<rparr>) = main e a"
    by (cases "npmInit e")
       (simp_all add: main_def callback_def dependencies_def devDependencies_def
          packageJsonScripts_def dockerfileContent_def Let_def)
  have "WriteFile (path_join (cwd e) [projectName a, ''src'', ''utils'', ''errorHandler.ts''])
          (Text errorHandlerContent) \<in> set (fsOps (main e a))
      \<and> WriteFile (path_join (cwd e) [projectName a, ''src'', ''middlewares'',
                      if language a = TypeScript then ''error.ts'' else ''error.js''])
          (Text errorMiddlewareContent) \<in> set (fsOps (main e a))"
    if "npmInit e = Inr pj" for pj
    by (simp add: fsOps_main [OF that] path_join_def)
  with same show ?thesis by simp
qed

theorem basicErrorHandler_ignored_witness:
  "main demoEnv (demo\<lparr>basicErrorHandler := False\<rparr>) = main demoEnv demo
   \<and> WriteFile [''home'', ''demo'', ''src'', ''utils'', ''errorHandler.ts'']
        (Text errorHandlerContent) \<in> set (fsOps (main demoEnv (demo\<lparr>basicErrorHandler := False\<rparr>)))
   \<and> WriteFile [''home'', ''demo'', ''src'', ''middlewares'', ''error.js'']
        (Text errorMiddlewareContent) \<in> set (fsOps (main demoEnv (demo\<lparr>basicErrorHandler := False\<rparr>)))"
proof -
  have init: "npmInit demoEnv = Inr demoPackageJson" and dir: "cwd demoEnv = [''home'']"
    by (simp_all add: demoEnv_def)
  have ans: "language demo = JavaScript" "projectName demo = ''demo''"
    by (simp_all add: demo_def)
  from basicErrorHandler_ignored [where e = demoEnv and a = demo and b = False] init
  show ?thesis by (auto simp add: dir ans path_join_def)
qed

subsection \<open>Conditional files\<close>

text \<open>
  C3. When \<^verbatim>\<open>npm init -y\<close> succeeded, a run with \<^verbatim>\<open>docker\<close> false writes no file named
  \<^verbatim>\<open>Dockerfile\<close>, and a run with \<^verbatim>\<open>docker\<close> true writes exactly one, directly under the
  project directory.
\<close>

theorem dockerfile_iff_docker:
  assumes "npmInit e = Inr pj"
  shows "filter (isWriteOf ''Dockerfile'') (fsOps (main e a)) =
           (if docker a
            then [WriteFile (path_join (path_join (cwd e) [projectName a]) [''Dockerfile''])
                    (Text (dockerfileContent a))]
            else [])"
  by (simp add: fsOps_main [OF assms] isWriteOf_def basename_def folders_def path_join_def)

theorem dockerfile_iff_docker_witness:
  "npmInit demoEnv = Inr demoPackageJson \<and>
   filter (isWriteOf ''Dockerfile'') (fsOps (main demoEnv (demo\<lparr>docker := True\<rparr>))) =
     [WriteFile [''home'', ''demo'', ''Dockerfile''] (Text (dockerfileContent (demo\<lparr>docker := True\<rparr>)))]"
  using dockerfile_iff_docker [of demoEnv demoPackageJson "demo\<lparr>docker := True\<rparr>"]
  by (simp add: demoEnv_def demo_def path_join_def)

text \<open>
  C4. When \<^verbatim>\<open>npm init -y\<close> succeeded, a JavaScript run writes no \<^verbatim>\<open>tsconfig.json\<close> and a
  TypeScript run writes exactly one, directly under the project directory; its text
  contains \<^verbatim>\<open>"strict": true\<close>.
\<close>

theorem tsconfig_iff_typescript:
  assumes "npmInit e = Inr pj"
  shows \<open>filter (isWriteOf ''tsconfig.json'') (fsOps (main e a)) =
           (if language a = TypeScript
            then [WriteFile (path_join (path_join (cwd e) [projectName a]) [''tsconfig.json''])
                    (Text tsconfigContent)]
            else [])
         \<and> sublist ''"strict": true'' tsconfigContent\<close>
proof -
  have \<open>tsconfigContent =
     (''{\<newline>'' @ ''  "compilerOptions": {\<newline>'' @ ''    "target": "ES6",\<newline>'' @
      ''    "module": "commonjs",\<newline>'' @ ''    "outDir": "./dist",\<newline>'' @
      ''    "rootDir": "./src",\<newline>'' @ ''    '') @
     ''"strict": true'' @
     ('',\<newline>'' @ ''    "esModuleInterop": true\<newline>'' @ ''  },\<newline>'' @
      ''  "exclude": ["node_modules"]\<newline>'' @ ''}'')\<close>
    by (simp add: tsconfigContent_def)
  then have \<open>sublist ''"strict": true'' tsconfigContent\<close>
    unfolding sublist_def by blast
  then show ?thesis
    by (simp add: fsOps_main [OF assms] isWriteOf_def basename_def folders_def path_join_def)
qed

theorem tsconfig_iff_typescript_witness:
  "npmInit demoEnv = Inr demoPackageJson
   \<and> filter (isWriteOf ''tsconfig.json'') (fsOps (main demoEnv (demo\<lparr>language := TypeScript\<rparr>))) =
       [WriteFile [''home'', ''demo'', ''tsconfig.json''] (Text tsconfigContent)]
   \<and> filter (isWriteOf ''tsconfig.json'') (fsOps (main demoEnv demo)) = []"
  using tsconfig_iff_typescript [of demoEnv demoPackageJson "demo\<lparr>language := TypeScript\<rparr>"]
    tsconfig_iff_typescript [of demoEnv demoPackageJson demo]
  by (simp add: demoEnv_def demo_def path_join_def)

subsection \<open>The sample scenario\<close>

lemma appFileContent_demo:
  "appFileContent True False True JavaScript =
     ''const express = require('express');\<newline>'' @
     ''require('dotenv').config();\<newline>'' @
     ''const cors = require('cors');\<newline>'' @
     ''\<newline>'' @
     ''    const app = express();\<newline>'' @
     ''    app.use(express.json());\<newline>'' @
     ''    app.use(cors()); // Enable CORS\<newline>'' @
     remainingSetup @
     ''module.exports = { app, envMode };''"
  by (simp add: appFileContent_def importLines_def appSetup_def)

lemma demo_cors_line:
  "sublist ''const cors = require('cors');\<newline>'' (appFileContent True False True JavaScript)"
proof -
  have "appFileContent True False True JavaScript =
     (''const express = require('express');\<newline>'' @ ''require('dotenv').config();\<newline>'') @
     ''const cors = require('cors');\<newline>'' @
     (''\<newline>'' @
     ''    const app = express();\<newline>'' @
     ''    app.use(express.json());\<newline>'' @
     ''    app.use(cors()); // Enable CORS\<newline>'' @
     remainingSetup @
     ''module.exports = { app, envMode };'')"
    by (simp add: appFileContent_demo)
  then show ?thesis unfolding sublist_def by blast
qed

lemma demo_no_morgan:
  "\<not> sublist ''morgan'' (appFileContent True False True JavaScript)"
  by (simp add: appFileContent_demo remainingSetup_def sublist_code)

text \<open>
  C5. For the answers \<^verbatim>\<open>demo\<close> (JavaScript, CORS and environment file on, Morgan and
  Docker off) and a successful \<^verbatim>\<open>npm init -y\<close>: the runtime packages are exactly express,
  cors and dotenv, the development packages exactly nodemon, and these are the two lists
  installed; the entry file \<^verbatim>\<open>src/app.js\<close> is written once, contains the line that requires
  cors and nowhere the text \<^verbatim>\<open>morgan\<close>; \<^verbatim>\<open>.env\<close> is written; neither a \<^verbatim>\<open>Dockerfile\<close>
  nor a \<^verbatim>\<open>tsconfig.json\<close> is written.
\<close>

theorem demo_scenario:
  assumes "npmInit e = Inr pj"
  shows "set (dependencies demo) = {''express'', ''cors'', ''dotenv''}
       \<and> set (devDependencies demo) = {''nodemon''}
       \<and> installs (main e demo) =
           [(dependencies demo, path_join (cwd e) [''demo''], False),
            (devDependencies demo, path_join (cwd e) [''demo''], True)]
       \<and> (\<exists>t. filter (isWriteOf ''app.js'') (fsOps (main e demo)) =
                 [WriteFile (path_join (cwd e) [''demo'', ''src'', ''app.js'']) (Text t)]
             \<and> sublist ''const cors = require('cors');\<newline>'' t
             \<and> \<not> sublist ''morgan'' t)
       \<and> filter (isWriteOf ''.env'') (fsOps (main e demo)) =
           [WriteFile (path_join (cwd e) [''demo'', ''.env'']) (Text envContent)]
       \<and> filter (isWriteOf ''Dockerfile'') (fsOps (main e demo)) = []
       \<and> filter (isWriteOf ''tsconfig.json'') (fsOps (main e demo)) = []"
proof -
  have deps: "set (dependencies demo) = {''express'', ''cors'', ''dotenv''}"
    by (auto simp add: dependencies_def demo_def)
  have dev: "set (devDependencies demo) = {''nodemon''}"
    by (simp add: devDependencies_def demo_def)
  have inst: "installs (main e demo) =
           [(dependencies demo, path_join (cwd e) [''demo''], False),
            (devDependencies demo, path_join (cwd e) [''demo''], True)]"
    by (simp add: installs_main [OF assms] path_join_def demo_def)
  have app: "filter (isWriteOf ''app.js'') (fsOps (main e demo)) =
     [WriteFile (path_join (cwd e) [''demo'', ''src'', ''app.js''])
        (Text (appFileContent True False True JavaScript))]"
    by (simp add: fsOps_main [OF assms] isWriteOf_def basename_def folders_def path_join_def demo_def)
  have rest: "filter (isWriteOf ''.env'') (fsOps (main e demo)) =
           [WriteFile (path_join (cwd e) [''demo'', ''.env'']) (Text envContent)]"
     "filter (isWriteOf ''Dockerfile'') (fsOps (main e demo)) = []"
     "filter (isWriteOf ''tsconfig.json'') (fsOps (main e demo)) = []"
    by (simp_all add: fsOps_main [OF assms] isWriteOf_def basename_def folders_def path_join_def demo_def)
  from deps dev inst app rest demo_cors_line demo_no_morgan show ?thesis by blast
qed

theorem demo_scenario_witness:
  "npmInit demoEnv = Inr demoPackageJson \<and>
   installs (main demoEnv demo) =
     [([''express'', ''cors'', ''dotenv''], [''home'', ''demo''], False),
      ([''nodemon''], [''home'', ''demo''], True)] \<and>
   filter (isWriteOf ''.env'') (fsOps (main demoEnv demo)) =
     [WriteFile [''home'', ''demo'', ''.env''] (Text envContent)]"
  using demo_scenario [of demoEnv demoPackageJson]
  by (simp add: demoEnv_def path_join_def dependencies_def devDependencies_def demo_def)

subsection \<open>Directories before files\<close>

lemma parents_first_nth:
  "parents_first made ops \<Longrightarrow> i < length ops \<Longrightarrow>
   dirname (target (ops ! i)) \<in> set made \<or> (\<exists>j<i. ops ! j = MkDir (dirname (target (ops ! i))))"
proof (induction made ops arbitrary: i rule: parents_first.induct)
  case (1 made)
  then show ?case by simp
next
  case (2 made p ops)
  show ?case
  proof (cases i)
    case 0
    with 2 show ?thesis by simp
  next
    case (Suc k)
    with 2 have k: "k < length ops" and pf: "parents_first (p # made) ops" by simp_all
    from "2.IH" [OF pf k] Suc show ?thesis by auto
  qed
next
  case (3 made p c ops)
  show ?case
  proof (cases i)
    case 0
    with 3 show ?thesis by simp
  next
    case (Suc k)
    with 3 have k: "k < length ops" and pf: "parents_first made ops" by simp_all
    from "3.IH" [OF pf k] Suc show ?thesis by auto
  qed
qed

lemma parents_first_main:
  assumes "npmInit e = Inr pj"
  shows "parents_first [path_join (cwd e) [projectName a]] (tl (fsOps (main e a)))"
  by (simp add: fsOps_main [OF assms] folders_def dirname_def path_join_def butlast_append)

lemma hd_main:
  assumes "npmInit e = Inr pj"
  shows "fsOps (main e a) = MkDir (path_join (cwd e) [projectName a]) # tl (fsOps (main e a))"
  by (simp add: fsOps_main [OF assms] path_join_def)

text \<open>
  C9. When \<^verbatim>\<open>npm init -y\<close> succeeded: before every file write of a run comes the creation
  of the directory the file is written into; and every directory creation other than the
  first, which is that of the project directory, comes after the creation of its parent
  directory (project directory, then \<^verbatim>\<open>src\<close>, then each folder under \<^verbatim>\<open>src\<close>).
\<close>

theorem parent_directory_first:
  assumes "npmInit e = Inr pj" and "i < length (fsOps (main e a))"
  shows "(\<forall>p c. fsOps (main e a) ! i = WriteFile p c \<longrightarrow>
            (\<exists>j<i. fsOps (main e a) ! j = MkDir (dirname p)))
       \<and> (\<forall>p. fsOps (main e a) ! i = MkDir p \<longrightarrow>
            (i = 0 \<and> p = path_join (cwd e) [projectName a])
            \<or> (\<exists>j<i. fsOps (main e a) ! j = MkDir (dirname p)))"
proof -
  let ?root = "path_join (cwd e) [projectName a]"
  let ?ops = "fsOps (main e a)"
  have ops: "?ops = MkDir ?root # tl ?ops" by (rule hd_main [OF assms(1)])
  have later: "\<exists>j<i. ?ops ! j = MkDir (dirname (target (?ops ! i)))" if "i \<noteq> 0"
  proof -
    from that obtain k where i: "i = Suc k" by (cases i) auto
    with assms(2) ops have k: "k < length (tl ?ops)" by simp
    from i ops have at: "?ops ! i = tl ?ops ! k" by (metis nth_Cons_Suc)
    from parents_first_nth [OF parents_first_main [OF assms(1)] k]
    have "dirname (target (tl ?ops ! k)) = ?root
          \<or> (\<exists>j<k. tl ?ops ! j = MkDir (dirname (target (tl ?ops ! k))))"
      by simp
    then show ?thesis
    proof
      assume "dirname (target (tl ?ops ! k)) = ?root"
      with ops at have "?ops ! 0 = MkDir (dirname (target (?ops ! i)))"
        by (metis nth_Cons_0)
      with that show ?thesis by blast
    next
      assume "\<exists>j<k. tl ?ops ! j = MkDir (dirname (target (tl ?ops ! k)))"
      then obtain j where j: "j < k" "tl ?ops ! j = MkDir (dirname (target (tl ?ops ! k)))"
        by blast
      from ops have "?ops ! Suc j = tl ?ops ! j" by (metis nth_Cons_Suc)
      with j at i have "Suc j < i \<and> ?ops ! Suc j = MkDir (dirname (target (?ops ! i)))"
        by simp
      then show ?thesis by blast
    qed
  qed
  have first: "?ops ! 0 = MkDir ?root" using ops by (metis nth_Cons_0)
  show ?thesis
  proof (cases "i = 0")
    case True
    with first show ?thesis by simp
  next
    case False
    from later [OF False] show ?thesis by auto
  qed
qed

theorem parent_directory_first_witness:
  "npmInit demoEnv = Inr demoPackageJson
   \<and> 13 < length (fsOps (main demoEnv demo))
   \<and> fsOps (main demoEnv demo) ! 13 =
       WriteFile [''home'', ''demo'', ''src'', ''middlewares'', ''error.js''] (Text errorMiddlewareContent)
   \<and> (\<exists>j<13. fsOps (main demoEnv demo) ! j = MkDir [''home'', ''demo'', ''src'', ''middlewares''])"
proof -
  have init: "npmInit demoEnv = Inr demoPackageJson" by (simp add: demoEnv_def)
  have ans: "cwd demoEnv = [''home'']" "projectName demo = ''demo''" "language demo = JavaScript"
      "envFile demo" "\<not> docker demo"
    by (simp_all add: demoEnv_def demo_def)
  have len: "13 < length (fsOps (main demoEnv demo))"
    by (simp add: fsOps_main [OF init] folders_def ans)
  have at: "fsOps (main demoEnv demo) ! 13 =
       WriteFile [''home'', ''demo'', ''src'', ''middlewares'', ''error.js''] (Text errorMiddlewareContent)"
    by (simp add: fsOps_main [OF init] folders_def ans)
  have dir: "dirname [''home'', ''demo'', ''src'', ''middlewares'', ''error.js''] =
       [''home'', ''demo'', ''src'', ''middlewares'']"
    by (simp add: dirname_def)
  from parent_directory_first [OF init len] at dir
  have "\<exists>j<13. fsOps (main demoEnv demo) ! j = MkDir [''home'', ''demo'', ''src'', ''middlewares'']"
    by simp
  with init len at show ?thesis by blast
qed

subsection \<open>Version lookup and installation\<close>

lemma getLatestPackageVersion_resolves:
  "getLatestPackageVersion sh name =
     Inr (case sh (''npm show '' @ name @ '' version'') of
            Inl err \<Rightarrow> None
          | Inr out \<Rightarrow> Some (trim out))"
  by (simp add: getLatestPackageVersion_def split: sum.splits)

lemma promise_all_resolved:
  "promise_all (map (\<lambda>x. Inr (f x)) xs) = Inr (map f xs)"
  by (induction xs) simp_all

lemma depVersions_resolves:
  "depVersions sh deps =
     Inr (map (\<lambda>dep. dep @ ''@'' @
            template_value (case sh (''npm show '' @ dep @ '' version'') of
                              Inl err \<Rightarrow> None
                            | Inr out \<Rightarrow> Some (trim out))) deps)"
  unfolding depVersions_def getLatestPackageVersion_resolves
  by (simp add: promise_all_resolved)

lemma sublist_join:
  "x \<in> set xs \<Longrightarrow> sublist x (join sep xs)"
proof (induction sep xs rule: join.induct)
  case (1 sep)
  then show ?case by simp
next
  case (2 sep y)
  then show ?case by simp
next
  case (3 sep y z zs)
  show ?case
  proof (cases "x = y")
    case True
    have "join sep (y # z # zs) = [] @ y @ (sep @ join sep (z # zs))" by simp
    with True show ?thesis unfolding sublist_def by blast
  next
    case False
    with "3.prems" have "x \<in> set (z # zs)" by simp
    from "3.IH" [OF this] obtain ps ss where "join sep (z # zs) = ps @ x @ ss"
      unfolding sublist_def by blast
    then have "join sep (y # z # zs) = (y @ sep @ ps) @ x @ ss" by simp
    then show ?thesis unfolding sublist_def by blast
  qed
qed

text \<open>
  C7. The version lookup never rejects: it resolves with a version, or with \<^verbatim>\<open>null\<close>
  exactly when the \<^verbatim>\<open>npm show\<close> command failed. The lookups of a batch then all resolve,
  one entry for each package in the order of the batch; the entry of every package whose
  command succeeded is its name, \<^verbatim>\<open>@\<close> and the trimmed output, whatever happened to the
  other packages; and the install command is built from all the entries.
\<close>

theorem resolver_fail_soft:
  "(\<exists>v. getLatestPackageVersion sh name = Inr v)
   \<and> (getLatestPackageVersion sh name = Inr None
        \<longleftrightarrow> (\<exists>err. sh (''npm show '' @ name @ '' version'') = Inl err))
   \<and> (\<exists>dvs. depVersions sh deps = Inr dvs
          \<and> length dvs = length deps
          \<and> (\<forall>i<length deps. \<forall>out.
                sh (''npm show '' @ deps ! i @ '' version'') = Inr out
                \<longrightarrow> dvs ! i = deps ! i @ ''@'' @ trim out)
          \<and> installDependencies sh deps dir isDev =
              Inr (''npm install '' @ (if isDev then ''-D'' else []) @ '' '' @ join '' '' dvs, dir))"
proof -
  have one: "\<exists>v. getLatestPackageVersion sh name = Inr v"
    by (simp add: getLatestPackageVersion_resolves)
  have absent: "getLatestPackageVersion sh name = Inr None
        \<longleftrightarrow> (\<exists>err. sh (''npm show '' @ name @ '' version'') = Inl err)"
    by (simp add: getLatestPackageVersion_resolves split: sum.splits)
  let ?dvs = "map (\<lambda>dep. dep @ ''@'' @
            template_value (case sh (''npm show '' @ dep @ '' version'') of
                              Inl err \<Rightarrow> None
                            | Inr out \<Rightarrow> Some (trim out))) deps"
  have all: "depVersions sh deps = Inr ?dvs" by (rule depVersions_resolves)
  have len: "length ?dvs = length deps" by simp
  have each: "\<forall>i<length deps. \<forall>out.
                sh (''npm show '' @ deps ! i @ '' version'') = Inr out
                \<longrightarrow> ?dvs ! i = deps ! i @ ''@'' @ trim out"
    by (simp add: template_value_def)
  have cmd: "installDependencies sh deps dir isDev =
              Inr (''npm install '' @ (if isDev then ''-D'' else []) @ '' '' @ join '' '' ?dvs, dir)"
    by (simp add: installDependencies_def all)
  from all len each cmd have "\<exists>dvs. depVersions sh deps = Inr dvs
          \<and> length dvs = length deps
          \<and> (\<forall>i<length deps. \<forall>out.
                sh (''npm show '' @ deps ! i @ '' version'') = Inr out
                \<longrightarrow> dvs ! i = deps ! i @ ''@'' @ trim out)
          \<and> installDependencies sh deps dir isDev =
              Inr (''npm install '' @ (if isDev then ''-D'' else []) @ '' '' @ join '' '' dvs, dir)"
    by blast
  with one absent show ?thesis by blast
qed

lemma flaky_entries:
  "depVersions flakyShell [''express'', ''cors'', ''dotenv''] =
     Inr [''express@4.19.2'', ''cors@null'', ''dotenv@4.19.2'']"
  by (simp add: depVersions_resolves flakyShell_def template_value_def trim_def isWhiteSpace_def)

theorem resolver_fail_soft_witness:
  "getLatestPackageVersion flakyShell ''cors'' = Inr None
   \<and> installDependencies flakyShell [''express'', ''cors'', ''dotenv''] [''home'', ''demo''] False =
       Inr (''npm install  express@4.19.2 cors@null dotenv@4.19.2'', [''home'', ''demo''])"
proof -
  have fail: "flakyShell (''npm show '' @ ''cors'' @ '' version'') = Inl ''E404''"
    by (simp add: flakyShell_def)
  from resolver_fail_soft [of flakyShell "''cors''" "[''express'', ''cors'', ''dotenv'']"
      "[''home'', ''demo'']" False] fail
  show ?thesis by (auto simp add: flaky_entries)
qed

text \<open>
  C10. A package of the batch whose lookup failed is still in the install command, as the
  text of its name followed by \<^verbatim>\<open>@null\<close>: that text is one of the entries joined into the
  command, and so a part of the command.
\<close>

theorem unresolved_package_as_null:
  assumes "d \<in> set deps" and "sh (''npm show '' @ d @ '' version'') = Inl err"
  shows "\<exists>dvs. depVersions sh deps = Inr dvs
           \<and> d @ ''@null'' \<in> set dvs
           \<and> installDependencies sh deps dir isDev =
               Inr (''npm install '' @ (if isDev then ''-D'' else []) @ '' '' @ join '' '' dvs, dir)
           \<and> sublist (d @ ''@null'')
               (''npm install '' @ (if isDev then ''-D'' else []) @ '' '' @ join '' '' dvs)"
proof -
  let ?entry = "\<lambda>dep. dep @ ''@'' @
            template_value (case sh (''npm show '' @ dep @ '' version'') of
                              Inl err \<Rightarrow> None
                            | Inr out \<Rightarrow> Some (trim out))"
  let ?dvs = "map ?entry deps"
  have all: "depVersions sh deps = Inr ?dvs" by (rule depVersions_resolves)
  from assms(2) have "?entry d = d @ ''@null''" by (simp add: template_value_def)
  with assms(1) have mem: "d @ ''@null'' \<in> set ?dvs" by (metis (no_types, lifting) image_eqI set_map)
  have cmd: "installDependencies sh deps dir isDev =
              Inr (''npm install '' @ (if isDev then ''-D'' else []) @ '' '' @ join '' '' ?dvs, dir)"
    by (simp add: installDependencies_def all)
  from sublist_join [OF mem] obtain ps ss where "join '' '' ?dvs = ps @ (d @ ''@null'') @ ss"
    unfolding sublist_def by blast
  then have "''npm install '' @ (if isDev then ''-D'' else []) @ '' '' @ join '' '' ?dvs =
      (''npm install '' @ (if isDev then ''-D'' else []) @ '' '' @ ps) @ (d @ ''@null'') @ ss"
    by simp
  then have sub: "sublist (d @ ''@null'')
               (''npm install '' @ (if isDev then ''-D'' else []) @ '' '' @ join '' '' ?dvs)"
    unfolding sublist_def by blast
  from all mem cmd sub show ?thesis by blast
qed

theorem unresolved_package_as_null_witness:
  "''cors'' \<in> set [''express'', ''cors'', ''dotenv'']
   \<and> flakyShell ''npm show cors version'' = Inl ''E404''
   \<and> (\<exists>dvs. depVersions flakyShell [''express'', ''cors'', ''dotenv''] = Inr dvs
         \<and> ''cors@null'' \<in> set dvs)"
proof -
  have mem: "''cors'' \<in> set [''express'', ''cors'', ''dotenv'']" by simp
  have fail: "flakyShell (''npm show '' @ ''cors'' @ '' version'') = Inl ''E404''"
    by (simp add: flakyShell_def)
  from unresolved_package_as_null
      [where d = "''cors''" and deps = "[''express'', ''cors'', ''dotenv'']" and sh = flakyShell
         and err = "''E404''" and dir = "[''home'', ''demo'']" and isDev = True, OF mem fail]
    fail mem
  show ?thesis by auto
qed

subsection \<open>The manifest scripts\<close>

lemma map_of_set_prop:
  "map_of (set_prop k v ps) = (map_of ps)(k \<mapsto> v)"
  by (induction ps) (auto simp add: fun_eq_iff)

lemma packageJsonScripts_index:
  "map_of (packageJsonScripts a old) =
     (map_of old)
       (''dev'' \<mapsto> (if language a = TypeScript then ''nodemon src/app.ts'' else ''nodemon src/app.js''),
        ''watch'' \<mapsto> (if language a = TypeScript then ''tsc -w'' else []))"
  by (simp add: packageJsonScripts_def map_of_set_prop)

text \<open>
  C8. In \<^verbatim>\<open>src/index.js\<close> the manifest gets \<^verbatim>\<open>dev\<close> and \<^verbatim>\<open>watch\<close> and keeps every other
  script (lemma \<open>packageJsonScripts_index\<close>), \<^verbatim>\<open>watch\<close> being empty for JavaScript. The
  second script, on the same JavaScript answers, sets \<^verbatim>\<open>watch\<close> to \<^verbatim>\<open>tsc -w\<close> and \<^verbatim>\<open>dev\<close>
  to the TypeScript entry file.
\<close>

theorem part_000_watch_for_javascript:
  "language demo = JavaScript
   \<and> map_of (packageJsonScripts_part_000 demo (scripts demoPackageJson)) ''watch'' = Some ''tsc -w''
   \<and> map_of (packageJsonScripts_part_000 demo (scripts demoPackageJson)) ''dev'' = Some ''nodemon src/app.ts''
   \<and> map_of (packageJsonScripts demo (scripts demoPackageJson)) ''watch'' = Some []
   \<and> map_of (packageJsonScripts demo (scripts demoPackageJson)) ''dev'' = Some ''nodemon src/app.js''"
  by (simp add: packageJsonScripts_part_000_def packageJsonScripts_def map_of_set_prop demo_def)

subsection \<open>The error-handler utility\<close>

text \<open>
  C6. For the JavaScript answers \<^verbatim>\<open>demo\<close>, the one file written into \<^verbatim>\<open>src/utils\<close> is
  \<^verbatim>\<open>errorHandler.ts\<close>, and its text declares a typed member and typed constructor
  parameters, which is TypeScript and not JavaScript; the entry file of the same run is
  \<^verbatim>\<open>app.js\<close>.
\<close>

theorem errorHandler_typescript_for_javascript:
  "language demo = JavaScript
   \<and> filter (isWriteIn [''home'', ''demo'', ''src'', ''utils'']) (fsOps (main demoEnv demo)) =
       [WriteFile [''home'', ''demo'', ''src'', ''utils'', ''errorHandler.ts''] (Text errorHandlerContent)]
   \<and> sublist ''public statusCode: number;'' errorHandlerContent
   \<and> sublist ''constructor(message: string, statusCode: number = 500)'' errorHandlerContent
   \<and> filter (isWriteIn [''home'', ''demo'', ''src'']) (fsOps (main demoEnv demo)) =
       [WriteFile [''home'', ''demo'', ''src'', ''app.js'']
          (Text (appFileContent True False True JavaScript))]"
proof -
  have init: "npmInit demoEnv = Inr demoPackageJson" by (simp add: demoEnv_def)
  have ans: "cwd demoEnv = [''home'']" "projectName demo = ''demo''" "language demo = JavaScript"
      "envFile demo" "\<not> docker demo"
    by (simp_all add: demoEnv_def demo_def)
  have only: "filter (isWriteIn [''home'', ''demo'', ''src'', ''utils'']) (fsOps (main demoEnv demo)) =
       [WriteFile [''home'', ''demo'', ''src'', ''utils'', ''errorHandler.ts''] (Text errorHandlerContent)]"
    by (simp add: fsOps_main [OF init] folders_def ans isWriteIn_def dirname_def)
  have "errorHandlerContent =
     (''export class ErrorHandler extends Error {\<newline>'' @ ''  '') @
     ''public statusCode: number;'' @
     (''\<newline>'' @ ''\<newline>'' @
      ''  constructor(message: string, statusCode: number = 500) {\<newline>'' @
      ''    super(message);\<newline>'' @
      ''    this.statusCode = statusCode;\<newline>'' @
      ''    Error.captureStackTrace(this, this.constructor);\<newline>'' @
      ''  }\<newline>'' @
      ''}'')"
    by (simp add: errorHandlerContent_def)
  then have field: "sublist ''public statusCode: number;'' errorHandlerContent"
    unfolding sublist_def by blast
  have "errorHandlerContent =
     (''export class ErrorHandler extends Error {\<newline>'' @
      ''  public statusCode: number;\<newline>'' @ ''\<newline>'' @ ''  '') @
     ''constructor(message: string, statusCode: number = 500)'' @
     ('' {\<newline>'' @
      ''    super(message);\<newline>'' @
      ''    this.statusCode = statusCode;\<newline>'' @
      ''    Error.captureStackTrace(this, this.constructor);\<newline>'' @
      ''  }\<newline>'' @
      ''}'')"
    by (simp add: errorHandlerContent_def)
  then have ctor: "sublist ''constructor(message: string, statusCode: number = 500)'' errorHandlerContent"
    unfolding sublist_def by blast
  have ans': "enableCORS demo" "\<not> morganLogging demo"
    by (simp_all add: demo_def)
  have entry: "filter (isWriteIn [''home'', ''demo'', ''src'']) (fsOps (main demoEnv demo)) =
       [WriteFile [''home'', ''demo'', ''src'', ''app.js'']
          (Text (appFileContent True False True JavaScript))]"
    by (simp add: fsOps_main [OF init] folders_def ans ans' isWriteIn_def dirname_def)
  from ans(3) only field ctor entry show ?thesis by blast
qed

end
